theory Spec2Isabelle
  imports Main "HOL-Library.Sublist"
begin

section \<open>The client application of the search agent (App.jsx)\<close>

text \<open>
  The component \<open>App\<close> of \<^verbatim>\<open>src/ai-agent-frontend/src/App.jsx\<close> keeps ten state
  variables and four asynchronous handlers. Each handler runs synchronously up to its
  \<^verbatim>\<open>await\<close>, issues one HTTP request, and continues when the request settles.
  The embedding keeps that shape: a handler is a value of type \<open>prog\<close>, whose
  constructors are the effects the code performs in the order it performs them, and
  whose \<open>Await\<close> node carries the continuation that runs on the outcome of the
  request.
\<close>

subsection \<open>JavaScript values\<close>

text \<open>
  A JavaScript string is a \<open>string\<close>; each \<open>char\<close> stands for one code unit
  below 256, so the texts covered are the Latin-1 ones. A parsed JSON number is
  represented by an integer: the code only observes whether a number is zero
  (through \<^verbatim>\<open>||\<close>).
\<close>

datatype json =
    JNull
  | JBool bool
  | JNum int
  | JStr string
  | JArr "json list"
  | JObj "(string \<times> json) list"

datatype js_error = TypeError

text \<open>
  \<^verbatim>\<open>data.key\<close>: reading a property of \<^verbatim>\<open>null\<close> throws a TypeError; an object
  yields the member (the last one when the key is repeated, as \<^verbatim>\<open>JSON.parse\<close>
  keeps it) or \<^verbatim>\<open>undefined\<close>, written \<open>None\<close>; the other values have none of
  the keys this program reads (\<^verbatim>\<open>results\<close>, \<^verbatim>\<open>search_results\<close>,
  \<^verbatim>\<open>analysis\<close>, \<^verbatim>\<open>response\<close>).
\<close>

fun js_prop :: "json \<Rightarrow> string \<Rightarrow> js_error + json option" where
  "js_prop JNull k = Inl TypeError"
| "js_prop (JObj kvs) k = Inr (map_of (rev kvs) k)"
| "js_prop (JBool b) k = Inr None"
| "js_prop (JNum n) k = Inr None"
| "js_prop (JStr s) k = Inr None"
| "js_prop (JArr xs) k = Inr None"

fun truthy :: "json \<Rightarrow> bool" where
  "truthy JNull = False"
| "truthy (JBool b) = b"
| "truthy (JNum n) = (n \<noteq> 0)"
| "truthy (JStr s) = (s \<noteq> [])"
| "truthy (JArr xs) = True"
| "truthy (JObj kvs) = True"

text \<open>\<^verbatim>\<open>a || b\<close>: the left operand when it is truthy, the right one otherwise.\<close>

fun js_or :: "json option \<Rightarrow> json \<Rightarrow> json" where
  "js_or None d = d"
| "js_or (Some v) d = (if truthy v then v else d)"

text \<open>
  \<^verbatim>\<open>String.prototype.trim\<close> removes the white space and line terminators at both
  ends; below 256 these are the code units 9 to 13, 32 and 160.
\<close>

definition is_js_space :: "char \<Rightarrow> bool" where
  "is_js_space c = ((of_char c :: nat) \<in> {9, 10, 11, 12, 13, 32, 160})"

definition js_trim :: "string \<Rightarrow> string" where
  "js_trim s = rev (dropWhile is_js_space (rev (dropWhile is_js_space s)))"

subsection \<open>Component state\<close>

record chat_message =
  role :: string
  content :: json
  timestamp :: string

record state =
  searchQuery :: string
  searchResults :: json
  isSearching :: bool
  chatMessages :: "chat_message list"
  chatInput :: string
  isChatting :: bool
  analysis :: json
  isAnalyzing :: bool
  agentStatus :: json
  activeTab :: string

text \<open>The initial values given to \<^verbatim>\<open>useState\<close> (lines 16 to 25).\<close>

definition initial_state :: state where
  "initial_state =
     \<lparr> searchQuery = [], searchResults = JArr [], isSearching = False,
       chatMessages = [], chatInput = [], isChatting = False,
       analysis = JStr [], isAnalyzing = False,
       agentStatus = JNull, activeTab = ''search'' \<rparr>"

subsection \<open>Effects, requests and handler programs\<close>

text \<open>
  One constructor per state setter the component calls. \<^verbatim>\<open>setChatMessages\<close> is
  only ever called with an updater function (\<^verbatim>\<open>prev => ...\<close>), which React applies
  to the transcript current at that moment, so it carries the function.
\<close>

datatype effect =
    SetSearchQuery string
  | SetSearchResults json
  | SetIsSearching bool
  | SetChatMessages "chat_message list \<Rightarrow> chat_message list"
  | SetChatInput string
  | SetIsChatting bool
  | SetAnalysis json
  | SetIsAnalyzing bool
  | SetAgentStatus json
  | SetActiveTab string
  | ConsoleError string
  | PreventDefault

fun apply_effect :: "effect \<Rightarrow> state \<Rightarrow> state" where
  "apply_effect (SetSearchQuery v) s = s\<lparr>searchQuery := v\<rparr>"
| "apply_effect (SetSearchResults v) s = s\<lparr>searchResults := v\<rparr>"
| "apply_effect (SetIsSearching v) s = s\<lparr>isSearching := v\<rparr>"
| "apply_effect (SetChatMessages f) s = s\<lparr>chatMessages := f (chatMessages s)\<rparr>"
| "apply_effect (SetChatInput v) s = s\<lparr>chatInput := v\<rparr>"
| "apply_effect (SetIsChatting v) s = s\<lparr>isChatting := v\<rparr>"
| "apply_effect (SetAnalysis v) s = s\<lparr>analysis := v\<rparr>"
| "apply_effect (SetIsAnalyzing v) s = s\<lparr>isAnalyzing := v\<rparr>"
| "apply_effect (SetAgentStatus v) s = s\<lparr>agentStatus := v\<rparr>"
| "apply_effect (SetActiveTab v) s = s\<lparr>activeTab := v\<rparr>"
| "apply_effect (ConsoleError l) s = s"
| "apply_effect PreventDefault s = s"

text \<open>
  The argument of \<^verbatim>\<open>fetch\<close>. The body is the value handed to
  \<^verbatim>\<open>JSON.stringify\<close>; its serialisation is not modelled.
\<close>

record request =
  url :: string
  http_method :: string
  headers :: "(string \<times> string) list"
  body :: "json option"

text \<open>
  How \<^verbatim>\<open>await fetch(...)\<close> followed by \<^verbatim>\<open>await response.json()\<close> ends:
  either of the two promises rejects (no connection, a body that is not JSON) with an
  error whose \<^verbatim>\<open>message\<close> is carried, or the body parses to a JSON value. No state
  setter is called between the two awaits, so they are one node.
\<close>

datatype outcome = Rejected string | Body json

text \<open>
  \<open>Call\<close> is a synchronous call with an effect, \<open>Date\<close> reads the clock
  (\<^verbatim>\<open>new Date().toISOString()\<close>), \<open>Await\<close> issues a request and suspends,
  \<open>Throw\<close> is an exception that no \<^verbatim>\<open>catch\<close> of the handler takes, and
  \<open>Return\<close> ends the handler.
\<close>

datatype prog =
    Return
  | Throw js_error
  | Call effect prog
  | Date "string \<Rightarrow> prog"
  | Await request "outcome \<Rightarrow> prog"

definition API_BASE :: string where
  "API_BASE = ''http://localhost:5000/api''"

definition get_request :: "string \<Rightarrow> request" where
  "get_request u = \<lparr> url = u, http_method = ''GET'', headers = [], body = None \<rparr>"

definition post_request :: "string \<Rightarrow> json \<Rightarrow> request" where
  "post_request u b =
     \<lparr> url = u, http_method = ''POST'',
       headers = [(''Content-Type'', ''application/json'')], body = Some b \<rparr>"

text \<open>How \<^verbatim>\<open>JSON.stringify\<close> sees a message of the transcript.\<close>

definition message_json :: "chat_message \<Rightarrow> json" where
  "message_json m =
     JObj [(''role'', JStr (role m)), (''content'', content m),
           (''timestamp'', JStr (timestamp m))]"

subsection \<open>The handlers\<close>

text \<open>
  A handler is a closure of one render: the state variables it reads are those of
  that render, the argument \<open>c\<close>. \<open>checkAgentStatus\<close> reads none.
\<close>

definition status_url :: string where
  "status_url = API_BASE @ ''/agent/status''"

definition checkAgentStatus :: prog where
  "checkAgentStatus =
     Await (get_request status_url)
       (\<lambda>res. case res of
          Body data \<Rightarrow> Call (SetAgentStatus data) Return
        | Rejected msg \<Rightarrow>
            Call (ConsoleError ''Error checking agent status:'')
              (Call (SetAgentStatus
                      (JObj [(''status'', JStr ''unhealthy''), (''error'', JStr msg)]))
                 Return))"

definition search_finally :: prog where
  "search_finally = Call (SetIsSearching False) Return"

definition search_catch :: prog where
  "search_catch =
     Call (ConsoleError ''Error searching:'')
       (Call (SetSearchResults (JArr [])) search_finally)"

definition search_request :: "string \<Rightarrow> request" where
  "search_request q =
     post_request (API_BASE @ ''/agent/search'')
       (JObj [(''query'', JStr q), (''num_results'', JNum 10)])"

definition handleSearch :: "state \<Rightarrow> prog" where
  "handleSearch c =
     (if js_trim (searchQuery c) = [] then Return
      else
        Call (SetIsSearching True)
          (Await (search_request (searchQuery c))
             (\<lambda>res. case res of
                Rejected msg \<Rightarrow> search_catch
              | Body data \<Rightarrow>
                  (case js_prop data ''results'' of
                     Inl e \<Rightarrow> search_catch
                   | Inr v \<Rightarrow> Call (SetSearchResults (js_or v (JArr []))) search_finally))))"

definition analyze_finally :: prog where
  "analyze_finally = Call (SetIsSearching False) (Call (SetIsAnalyzing False) Return)"

definition analyze_catch :: prog where
  "analyze_catch =
     Call (ConsoleError ''Error in search and analyze:'')
       (Call (SetSearchResults (JArr []))
          (Call (SetAnalysis (JStr ''Error occurred during analysis.''))
             analyze_finally))"

definition analyze_request :: "string \<Rightarrow> request" where
  "analyze_request q =
     post_request (API_BASE @ ''/agent/search-and-analyze'')
       (JObj [(''query'', JStr q),
              (''analysis_prompt'', JStr ''Analyze these search results and provide comprehensive insights, key findings, and actionable information.'')])"

definition handleSearchAndAnalyze :: "state \<Rightarrow> prog" where
  "handleSearchAndAnalyze c =
     (if js_trim (searchQuery c) = [] then Return
      else
        Call (SetIsSearching True)
          (Call (SetIsAnalyzing True)
             (Await (analyze_request (searchQuery c))
                (\<lambda>res. case res of
                   Rejected msg \<Rightarrow> analyze_catch
                 | Body data \<Rightarrow>
                     (case js_prop data ''search_results'' of
                        Inl e \<Rightarrow> analyze_catch
                      | Inr sr \<Rightarrow>
                          Call (SetSearchResults (js_or sr (JArr [])))
                            (case js_prop data ''analysis'' of
                               Inl e \<Rightarrow> analyze_catch
                             | Inr a \<Rightarrow>
                                 Call (SetAnalysis (js_or a (JStr [])))
                                   (Call (SetActiveTab ''analysis'') analyze_finally)))))))"

definition chat_finally :: prog where
  "chat_finally = Call (SetIsChatting False) Return"

definition chat_catch :: prog where
  "chat_catch =
     Call (ConsoleError ''Error in chat:'')
       (Date (\<lambda>t.
          Call (SetChatMessages (\<lambda>prev. prev @
                  [\<lparr> role = ''assistant'',
                     content = JStr ''Sorry, I encountered an error while processing your message.'',
                     timestamp = t \<rparr>]))
            chat_finally))"

definition chat_body :: "string \<Rightarrow> chat_message list \<Rightarrow> json" where
  "chat_body msg history =
     JObj [(''message'', JStr msg),
           (''conversation_history'', JArr (map message_json history)),
           (''system_prompt'', JStr ''You are a helpful AI assistant. Provide clear, informative, and engaging responses.'')]"

definition chat_request :: "string \<Rightarrow> chat_message list \<Rightarrow> request" where
  "chat_request msg history = post_request (API_BASE @ ''/agent/chat'') (chat_body msg history)"

definition handleChat :: "state \<Rightarrow> prog" where
  "handleChat c =
     (if js_trim (chatInput c) = [] then Return
      else
        Date (\<lambda>t.
          Call (SetChatMessages (\<lambda>prev. prev @
                  [\<lparr> role = ''user'', content = JStr (chatInput c), timestamp = t \<rparr>]))
            (Call (SetChatInput [])
               (Call (SetIsChatting True)
                  (Await (chat_request (chatInput c) (chatMessages c))
                     (\<lambda>res. case res of
                        Rejected msg \<Rightarrow> chat_catch
                      | Body data \<Rightarrow>
                          (case js_prop data ''response'' of
                             Inl e \<Rightarrow> chat_catch
                           | Inr r \<Rightarrow>
                               Date (\<lambda>t'.
                                 Call (SetChatMessages (\<lambda>prev. prev @
                                         [\<lparr> role = ''assistant'',
                                            content = js_or r (JStr ''Sorry, I encountered an error.''),
                                            timestamp = t' \<rparr>]))
                                   chat_finally))))))))"

text \<open>\<^verbatim>\<open>handleKeyPress(e, action)\<close>, with \<^verbatim>\<open>e.key\<close> and \<^verbatim>\<open>e.shiftKey\<close>.\<close>

definition handleKeyPress :: "string \<Rightarrow> bool \<Rightarrow> prog \<Rightarrow> prog" where
  "handleKeyPress key shiftKey action =
     (if key = ''Enter'' \<and> \<not> shiftKey then Call PreventDefault action else Return)"

subsection \<open>Running a handler\<close>

text \<open>
  A handler runs without interruption until it reaches an \<open>Await\<close>, returns or
  throws. \<open>sync_state\<close> is the component state at that point, the setter calls
  applied in the order of the calls; \<open>trace\<close> lists what the segment did, ending
  with the request it issued; \<open>awaiting\<close> is that request with the continuation;
  \<open>raises\<close> tells whether the segment ended in an uncaught exception. The argument
  \<open>now\<close> is the reading of the clock during the segment.
\<close>

primrec sync_state :: "prog \<Rightarrow> string \<Rightarrow> state \<Rightarrow> state" where
  "sync_state Return now s = s"
| "sync_state (Throw e) now s = s"
| "sync_state (Call e p) now s = sync_state p now (apply_effect e s)"
| "sync_state (Date k) now s = sync_state (k now) now s"
| "sync_state (Await r k) now s = s"

datatype event = Eff effect | Issue request

primrec trace :: "prog \<Rightarrow> string \<Rightarrow> event list" where
  "trace Return now = []"
| "trace (Throw e) now = []"
| "trace (Call e p) now = Eff e # trace p now"
| "trace (Date k) now = trace (k now) now"
| "trace (Await r k) now = [Issue r]"

primrec awaiting :: "prog \<Rightarrow> string \<Rightarrow> (request \<times> (outcome \<Rightarrow> prog)) option" where
  "awaiting Return now = None"
| "awaiting (Throw e) now = None"
| "awaiting (Call e p) now = awaiting p now"
| "awaiting (Date k) now = awaiting (k now) now"
| "awaiting (Await r k) now = Some (r, k)"

primrec raises :: "prog \<Rightarrow> string \<Rightarrow> bool" where
  "raises Return now = False"
| "raises (Throw e) now = True"
| "raises (Call e p) now = raises p now"
| "raises (Date k) now = raises (k now) now"
| "raises (Await r k) now = False"

text \<open>The request a handler issues, and the program that runs when it settles.\<close>

definition issued :: "prog \<Rightarrow> string \<Rightarrow> request option" where
  "issued p now = map_option fst (awaiting p now)"

definition resume :: "prog \<Rightarrow> string \<Rightarrow> outcome \<Rightarrow> prog" where
  "resume p now res = (case awaiting p now of None \<Rightarrow> Return | Some (r, k) \<Rightarrow> k res)"

text \<open>The handler on its own: its first segment, then its continuation on \<open>res\<close>.\<close>

definition run_alone :: "prog \<Rightarrow> string \<Rightarrow> outcome \<Rightarrow> string \<Rightarrow> state \<Rightarrow> state" where
  "run_alone p now res now' s = sync_state (resume p now res) now' (sync_state p now s)"

subsection \<open>The component as a transition system\<close>

text \<open>
  The events the rendered elements are wired to (lines 204 to 390). A button whose
  \<^verbatim>\<open>disabled\<close> attribute holds does not call its \<^verbatim>\<open>onClick\<close>; the key handlers
  carry no such gate.
\<close>

datatype user_op =
    ChangeSearchQuery string
  | KeyPressSearch string bool
  | ClickSearch
  | ClickSearchAndAnalyze
  | ChangeTab string
  | ChangeChatInput string
  | KeyPressChat string bool
  | ClickSend

fun handler :: "user_op \<Rightarrow> state \<Rightarrow> prog" where
  "handler (ChangeSearchQuery v) c = Call (SetSearchQuery v) Return"
| "handler (KeyPressSearch key shiftKey) c = handleKeyPress key shiftKey (handleSearch c)"
| "handler ClickSearch c =
     (if isSearching c \<or> js_trim (searchQuery c) = [] then Return else handleSearch c)"
| "handler ClickSearchAndAnalyze c =
     (if isSearching c \<or> isAnalyzing c \<or> js_trim (searchQuery c) = [] then Return
      else handleSearchAndAnalyze c)"
| "handler (ChangeTab v) c = Call (SetActiveTab v) Return"
| "handler (ChangeChatInput v) c = Call (SetChatInput v) Return"
| "handler (KeyPressChat key shiftKey) c = handleKeyPress key shiftKey (handleChat c)"
| "handler ClickSend c =
     (if isChatting c \<or> js_trim (chatInput c) = [] then Return else handleChat c)"

text \<open>
  A configuration is the component state, the requests in flight with their
  continuations, and the log of every request issued so far. \<open>launch\<close> runs one
  segment on the current state and registers the request it ends with.
\<close>

record config =
  ui :: state
  inflight :: "(request \<times> (outcome \<Rightarrow> prog)) list"
  sent :: "request list"

definition launch :: "prog \<Rightarrow> string \<Rightarrow> config \<Rightarrow> config" where
  "launch p now c =
     \<lparr> ui = sync_state p now (ui c),
       inflight = inflight c @ (case awaiting p now of None \<Rightarrow> [] | Some rk \<Rightarrow> [rk]),
       sent = sent c @ (case awaiting p now of None \<Rightarrow> [] | Some rk \<Rightarrow> [fst rk]) \<rparr>"

text \<open>
  \<open>Fire\<close> is a user event, handled by the closure of the current render;
  \<open>Settle i\<close> is the settling of the \<open>i\<close>-th request in flight, in any order.
\<close>

datatype action = Fire user_op string | Settle nat outcome string

fun step :: "action \<Rightarrow> config \<Rightarrow> config" where
  "step (Fire ev now) c = launch (handler ev (ui c)) now c"
| "step (Settle i res now) c =
     (if i < length (inflight c)
      then launch (snd (inflight c ! i) res) now
             (c\<lparr>inflight := take i (inflight c) @ drop (Suc i) (inflight c)\<rparr>)
      else c)"

fun exec :: "action list \<Rightarrow> config \<Rightarrow> config" where
  "exec [] c = c"
| "exec (a # as) c = exec as (step a c)"

text \<open>
  Mounting: the effect with the empty dependency list (lines 28 to 30) calls
  \<open>checkAgentStatus\<close> once, after the first render. A session is the mount followed
  by any sequence of actions.
\<close>

definition mount :: "string \<Rightarrow> config" where
  "mount now = launch checkAgentStatus now \<lparr> ui = initial_state, inflight = [], sent = [] \<rparr>"

definition session :: "string \<Rightarrow> action list \<Rightarrow> config" where
  "session now acts = exec acts (mount now)"

subsection \<open>Invariants of the transition system\<close>

text \<open>
  Properties of a continuation that hold whatever the outcome, the clock and the state
  it resumes on: it issues no further request, it only appends to the transcript, it
  leaves the agent status alone. A configuration is well formed when every
  continuation in flight has the first two, and the third unless it belongs to the
  status request.
\<close>

definition settles_quietly :: "(outcome \<Rightarrow> prog) \<Rightarrow> bool" where
  "settles_quietly k = (\<forall>res now. awaiting (k res) now = None)"

definition extends_transcript :: "(outcome \<Rightarrow> prog) \<Rightarrow> bool" where
  "extends_transcript k =
     (\<forall>res now s. prefix (chatMessages s) (chatMessages (sync_state (k res) now s)))"

definition keeps_status :: "(outcome \<Rightarrow> prog) \<Rightarrow> bool" where
  "keeps_status k = (\<forall>res now s. agentStatus (sync_state (k res) now s) = agentStatus s)"

definition well_formed :: "config \<Rightarrow> bool" where
  "well_formed c =
     (\<forall>(r, k) \<in> set (inflight c).
        settles_quietly k \<and> extends_transcript k \<and> (url r \<noteq> status_url \<longrightarrow> keeps_status k))"


text \<open>Whether the status request is still in flight.\<close>

definition status_pending :: "config \<Rightarrow> bool" where
  "status_pending c = (status_url \<in> set (map (\<lambda>rk. url (fst rk)) (inflight c)))"

subsection \<open>The gateway, as the spec describes it\<close>




subsection \<open>Sample states\<close>

text \<open>The initial state with a text typed into the chat box, or into the search box.\<close>

definition chat_draft :: "string \<Rightarrow> state" where
  "chat_draft txt = initial_state\<lparr>chatInput := txt\<rparr>"

definition query_draft :: "string \<Rightarrow> state" where
  "query_draft q = initial_state\<lparr>searchQuery := q\<rparr>"

text \<open>
  A transcript of one exchange, the state in which a second message has been typed
  after it, and the actions of a session that lead there.
\<close>

definition sample_transcript :: "chat_message list" where
  "sample_transcript =
     [\<lparr> role = ''user'', content = JStr ''hi'', timestamp = ''2025-01-01T10:00:00.000Z'' \<rparr>,
      \<lparr> role = ''assistant'', content = JStr ''hello'',
        timestamp = ''2025-01-01T10:00:02.000Z'' \<rparr>]"

definition followup_draft :: state where
  "followup_draft = initial_state\<lparr>chatMessages := sample_transcript, chatInput := ''more''\<rparr>"


section \<open>Verified properties\<close>

subsection \<open>Facts about the handlers\<close>

lemmas handler_defs =
  handleKeyPress_def handleSearch_def search_catch_def search_finally_def
  handleSearchAndAnalyze_def analyze_catch_def analyze_finally_def
  handleChat_def chat_catch_def chat_finally_def

lemmas request_defs =
  status_url_def search_request_def analyze_request_def chat_request_def
  post_request_def get_request_def

lemma handler_sync_status: "agentStatus (sync_state (handler ev c) now s) = agentStatus s"
  by (cases ev) (simp_all add: handler_defs)


lemma handler_awaiting:
  assumes "awaiting (handler ev c) now = Some (r, k)"
  shows "url r \<noteq> status_url \<and> settles_quietly k \<and> extends_transcript k \<and> keeps_status k"
  using assms
  by (cases ev)
     (auto simp: handler_defs request_defs
                 settles_quietly_def extends_transcript_def keeps_status_def
           split: if_splits outcome.splits sum.splits)

lemma well_formed_mount: "well_formed (mount now)"
  by (auto simp: mount_def launch_def well_formed_def checkAgentStatus_def get_request_def
                 settles_quietly_def extends_transcript_def
           split: outcome.splits)

lemma sent_mount: "sent (mount now) = [get_request status_url]"
  by (simp add: mount_def launch_def checkAgentStatus_def)

subsection \<open>Facts about steps\<close>

lemma set_remove_nth: "set (take i xs @ drop (Suc i) xs) \<subseteq> set xs"
  by (auto dest: in_set_takeD in_set_dropD)

lemma well_formed_step: "well_formed c \<Longrightarrow> well_formed (step a c)"
proof (cases a)
  case (Fire ev now)
  assume wf: "well_formed c"
  show ?thesis
  proof (cases "awaiting (handler ev (ui c)) now")
    case None
    with wf Fire show ?thesis by (simp add: launch_def well_formed_def)
  next
    case (Some rk)
    obtain r k where rk: "rk = (r, k)" by (cases rk)
    from handler_awaiting [of ev "ui c" now r k] Some rk
    have "url r \<noteq> status_url \<and> settles_quietly k \<and> extends_transcript k \<and> keeps_status k"
      by simp
    with wf Fire Some rk show ?thesis by (auto simp: launch_def well_formed_def)
  qed
next
  case (Settle i res now)
  assume wf: "well_formed c"
  show ?thesis
  proof (cases "i < length (inflight c)")
    case False
    with wf Settle show ?thesis by simp
  next
    case True
    then have mem: "inflight c ! i \<in> set (inflight c)" by simp
    obtain r k where rk: "inflight c ! i = (r, k)" by (cases "inflight c ! i")
    from wf mem rk have "settles_quietly k" by (auto simp: well_formed_def)
    then have none: "awaiting (k res) now = None" by (simp add: settles_quietly_def)
    from wf set_remove_nth [of i "inflight c"]
    have "\<forall>(r, k) \<in> set (take i (inflight c) @ drop (Suc i) (inflight c)).
            settles_quietly k \<and> extends_transcript k \<and> (url r \<noteq> status_url \<longrightarrow> keeps_status k)"
      unfolding well_formed_def by blast
    with Settle True rk none show ?thesis by (simp add: launch_def well_formed_def)
  qed
qed

lemma well_formed_exec: "well_formed c \<Longrightarrow> well_formed (exec acts c)"
  by (induction acts arbitrary: c) (simp_all add: well_formed_step)

lemma well_formed_session: "well_formed (session now acts)"
  unfolding session_def by (rule well_formed_exec) (rule well_formed_mount)



lemma step_sent:
  assumes "well_formed c"
  shows "filter (\<lambda>r. url r = status_url) (sent (step a c)) =
         filter (\<lambda>r. url r = status_url) (sent c)"
proof (cases a)
  case (Fire ev now)
  show ?thesis
  proof (cases "awaiting (handler ev (ui c)) now")
    case None
    with Fire show ?thesis by (simp add: launch_def)
  next
    case (Some rk)
    obtain r k where rk: "rk = (r, k)" by (cases rk)
    from handler_awaiting [of ev "ui c" now r k] Some rk have "url r \<noteq> status_url" by simp
    with Fire Some rk show ?thesis by (simp add: launch_def)
  qed
next
  case (Settle i res now)
  show ?thesis
  proof (cases "i < length (inflight c)")
    case False
    with Settle show ?thesis by simp
  next
    case True
    then have mem: "inflight c ! i \<in> set (inflight c)" by simp
    obtain r k where rk: "inflight c ! i = (r, k)" by (cases "inflight c ! i")
    from assms mem rk have "settles_quietly k" by (auto simp: well_formed_def)
    then have "awaiting (k res) now = None" by (simp add: settles_quietly_def)
    with Settle True rk show ?thesis by (simp add: launch_def)
  qed
qed

lemma exec_sent:
  "well_formed c \<Longrightarrow>
     filter (\<lambda>r. url r = status_url) (sent (exec acts c)) =
     filter (\<lambda>r. url r = status_url) (sent c)"
  by (induction acts arbitrary: c) (simp_all add: step_sent well_formed_step)

lemma step_no_status:
  assumes "well_formed c" and "\<not> status_pending c"
  shows "\<not> status_pending (step a c) \<and> agentStatus (ui (step a c)) = agentStatus (ui c)"
proof (cases a)
  case (Fire ev now)
  show ?thesis
  proof (cases "awaiting (handler ev (ui c)) now")
    case None
    with Fire assms show ?thesis by (simp add: launch_def status_pending_def handler_sync_status)
  next
    case (Some rk)
    obtain r k where rk: "rk = (r, k)" by (cases rk)
    from handler_awaiting [of ev "ui c" now r k] Some rk have "url r \<noteq> status_url" by simp
    with Fire Some rk assms show ?thesis
      by (simp add: launch_def status_pending_def handler_sync_status)
  qed
next
  case (Settle i res now)
  show ?thesis
  proof (cases "i < length (inflight c)")
    case False
    with Settle assms show ?thesis by simp
  next
    case True
    then have mem: "inflight c ! i \<in> set (inflight c)" by simp
    obtain r k where rk: "inflight c ! i = (r, k)" by (cases "inflight c ! i")
    from assms(2) mem rk have "url r \<noteq> status_url" by (force simp: status_pending_def)
    with assms(1) mem rk have q: "settles_quietly k" and ks: "keeps_status k"
      by (auto simp: well_formed_def)
    from q have none: "awaiting (k res) now = None" by (simp add: settles_quietly_def)
    from assms(2) set_remove_nth [of i "inflight c"]
    have "status_url \<notin> (\<lambda>rk. url (fst rk)) ` set (take i (inflight c) @ drop (Suc i) (inflight c))"
      unfolding status_pending_def set_map by blast
    with Settle True rk none ks show ?thesis
      by (auto simp: launch_def status_pending_def keeps_status_def)
  qed
qed

lemma exec_no_status:
  "well_formed c \<Longrightarrow> \<not> status_pending c \<Longrightarrow>
     agentStatus (ui (exec acts c)) = agentStatus (ui c)"
proof (induction acts arbitrary: c)
  case Nil
  show ?case by simp
next
  case (Cons a acts)
  from step_no_status [OF Cons.prems, of a] well_formed_step [OF Cons.prems(1), of a]
  have "agentStatus (ui (exec acts (step a c))) = agentStatus (ui (step a c))"
    and "agentStatus (ui (step a c)) = agentStatus (ui c)"
    by (simp_all add: Cons.IH)
  then show ?case by simp
qed

subsection \<open>Facts about the requests sent\<close>

lemma message_json_fun:
  "message_json = (\<lambda>x. JObj [(''role'', JStr (role x)), (''content'', content x),
                               (''timestamp'', JStr (timestamp x))])"
  by (rule ext) (simp add: message_json_def)







subsection \<open>Chat\<close>

text \<open>
  C1, as amended. For every chat submission whose message is not blank (non-empty after
  \<^verbatim>\<open>trim\<close>), the user's message, with role \<^verbatim>\<open>user\<close> and the submitted text as
  content, is appended to the transcript in the synchronous segment, before the request
  to the chat endpoint is issued; that segment appends nothing else. The assistant's
  message is appended by the continuation, which runs when the request has settled,
  whatever the outcome \<open>res\<close> and whatever state \<open>s'\<close> the component is in by then.
\<close>

theorem handleChat_optimistic_append:
  assumes "js_trim (chatInput c) \<noteq> []"
  shows "trace (handleChat c) now =
           [Eff (SetChatMessages (\<lambda>prev. prev @
                   [\<lparr> role = ''user'', content = JStr (chatInput c), timestamp = now \<rparr>])),
            Eff (SetChatInput []),
            Eff (SetIsChatting True),
            Issue (chat_request (chatInput c) (chatMessages c))]
       \<and> chatMessages (sync_state (handleChat c) now s) =
           chatMessages s @ [\<lparr> role = ''user'', content = JStr (chatInput c), timestamp = now \<rparr>]
       \<and> issued (resume (handleChat c) now res) now' = None
       \<and> (\<exists>m. role m = ''assistant'' \<and>
              chatMessages (sync_state (resume (handleChat c) now res) now' s') =
                chatMessages s' @ [m])"
  using assms
  by (simp add: handleChat_def issued_def resume_def chat_catch_def chat_finally_def
           split: outcome.splits sum.splits)

theorem handleChat_optimistic_append_witness:
  "js_trim (chatInput (chat_draft ''hi'')) \<noteq> []
   \<and> chatMessages (sync_state (handleChat (chat_draft ''hi'')) ''2025-01-01T10:00:00.000Z''
        (chat_draft ''hi'')) =
       [\<lparr> role = ''user'', content = JStr ''hi'', timestamp = ''2025-01-01T10:00:00.000Z'' \<rparr>]
   \<and> issued (resume (handleChat (chat_draft ''hi'')) ''2025-01-01T10:00:00.000Z''
        (Rejected ''Failed to fetch'')) ''2025-01-01T10:00:09.000Z'' = None"
  using handleChat_optimistic_append
          [of "chat_draft ''hi''" "''2025-01-01T10:00:00.000Z''" "chat_draft ''hi''"
              "Rejected ''Failed to fetch''" "''2025-01-01T10:00:09.000Z''" "chat_draft ''hi''"]
  by (simp add: chat_draft_def initial_state_def js_trim_def is_js_space_def)

text \<open>
  C1 as stated fails: a message of one space is not empty, and submitting it appends
  nothing.
\<close>

theorem handleChat_space_not_appended:
  "chatInput (chat_draft '' '') \<noteq> []
   \<and> trace (handleChat (chat_draft '' '')) ''2025-01-01T10:00:00.000Z'' = []
   \<and> chatMessages (sync_state (handleChat (chat_draft '' '')) ''2025-01-01T10:00:00.000Z''
        (chat_draft '' '')) = []"
  by (simp add: handleChat_def chat_draft_def initial_state_def js_trim_def is_js_space_def)

text \<open>
  C2, as amended. For every chat submission whose message is not blank, exactly one
  message with role \<^verbatim>\<open>assistant\<close> is appended when the call settles. It carries
  the server's response text when that is a non-empty string, the literal
  \<^verbatim>\<open>Sorry, I encountered an error.\<close> when the response field is missing, and the
  literal \<^verbatim>\<open>Sorry, I encountered an error while processing your message.\<close> when
  the request fails. The submission on its own grows the transcript by exactly two
  messages.
\<close>

theorem handleChat_one_reply:
  assumes "js_trim (chatInput c) \<noteq> []"
    and "js_prop d ''response'' = Inr (Some (JStr txt))" and "txt \<noteq> []"
    and "js_prop d' ''response'' = Inr None"
  shows "chatMessages (run_alone (handleChat c) now (Body d) now' s) =
           chatMessages s @
             [\<lparr> role = ''user'', content = JStr (chatInput c), timestamp = now \<rparr>,
              \<lparr> role = ''assistant'', content = JStr txt, timestamp = now' \<rparr>]
       \<and> chatMessages (run_alone (handleChat c) now (Body d') now' s) =
           chatMessages s @
             [\<lparr> role = ''user'', content = JStr (chatInput c), timestamp = now \<rparr>,
              \<lparr> role = ''assistant'', content = JStr ''Sorry, I encountered an error.'',
                timestamp = now' \<rparr>]
       \<and> chatMessages (run_alone (handleChat c) now (Rejected msg) now' s) =
           chatMessages s @
             [\<lparr> role = ''user'', content = JStr (chatInput c), timestamp = now \<rparr>,
              \<lparr> role = ''assistant'',
                content = JStr ''Sorry, I encountered an error while processing your message.'',
                timestamp = now' \<rparr>]
       \<and> length (chatMessages (run_alone (handleChat c) now res now' s)) =
           length (chatMessages s) + 2
       \<and> (\<exists>m. role m = ''assistant'' \<and>
              chatMessages (sync_state (resume (handleChat c) now res) now' s') =
                chatMessages s' @ [m])
       \<and> issued (resume (handleChat c) now res) now' = None"
  using assms
  by (simp add: handleChat_def run_alone_def issued_def resume_def chat_catch_def
                chat_finally_def
           split: outcome.splits sum.splits)

theorem handleChat_one_reply_witness:
  "js_trim (chatInput (chat_draft ''capital of France?'')) \<noteq> []
   \<and> js_prop (JObj [(''response'', JStr ''Paris'')]) ''response'' = Inr (Some (JStr ''Paris''))
   \<and> ''Paris'' \<noteq> []
   \<and> js_prop (JObj [(''error'', JStr ''Message is required'')]) ''response'' = Inr None
   \<and> chatMessages (run_alone (handleChat (chat_draft ''capital of France?''))
        ''2025-01-01T10:00:00.000Z'' (Body (JObj [(''response'', JStr ''Paris'')]))
        ''2025-01-01T10:00:02.000Z'' (chat_draft ''capital of France?'')) =
       [\<lparr> role = ''user'', content = JStr ''capital of France?'',
          timestamp = ''2025-01-01T10:00:00.000Z'' \<rparr>,
        \<lparr> role = ''assistant'', content = JStr ''Paris'',
          timestamp = ''2025-01-01T10:00:02.000Z'' \<rparr>]"
  using handleChat_one_reply
          [of "chat_draft ''capital of France?''" "JObj [(''response'', JStr ''Paris'')]"
              "''Paris''" "JObj [(''error'', JStr ''Message is required'')]"
              "''2025-01-01T10:00:00.000Z''" "''2025-01-01T10:00:02.000Z''"
              "chat_draft ''capital of France?''"]
  by (simp add: chat_draft_def initial_state_def js_trim_def is_js_space_def)

text \<open>
  C2 as stated fails: submitting a message of one space leaves the transcript as long
  as it was, whatever the server would have answered.
\<close>

theorem handleChat_space_no_reply:
  "chatInput (chat_draft '' '') \<noteq> []
   \<and> length (chatMessages (run_alone (handleChat (chat_draft '' ''))
        ''2025-01-01T10:00:00.000Z'' (Body (JObj [(''response'', JStr ''Paris'')]))
        ''2025-01-01T10:00:02.000Z'' (chat_draft '' ''))) =
       length (chatMessages (chat_draft '' ''))"
  by (simp add: handleChat_def run_alone_def resume_def chat_draft_def initial_state_def
                js_trim_def is_js_space_def)

text \<open>
  C3. A chat submission with an empty message is rejected before any network call:
  \<open>handleChat\<close> returns without issuing a request and without calling any state
  setter, so the transcript, the busy flag and the input stay as they were. The
  guard is \<^verbatim>\<open>!chatInput.trim()\<close>, so the same holds for every input that consists of
  white space only; the empty input is the case \<open>chatInput c = []\<close> of the witness.
\<close>

theorem handleChat_blank_rejected:
  assumes "js_trim (chatInput c) = []"
  shows "trace (handleChat c) now = []
       \<and> issued (handleChat c) now = None
       \<and> \<not> raises (handleChat c) now
       \<and> sync_state (handleChat c) now s = s"
  using assms by (simp add: handleChat_def issued_def)

theorem handleChat_blank_rejected_witness:
  "chatInput initial_state = []
   \<and> trace (handleChat initial_state) ''2025-01-01T00:00:00.000Z'' = []
   \<and> issued (handleChat initial_state) ''2025-01-01T00:00:00.000Z'' = None
   \<and> \<not> raises (handleChat initial_state) ''2025-01-01T00:00:00.000Z''
   \<and> sync_state (handleChat initial_state) ''2025-01-01T00:00:00.000Z'' initial_state
       = initial_state"
  using handleChat_blank_rejected
          [of initial_state "''2025-01-01T00:00:00.000Z''" initial_state]
  by (simp add: initial_state_def js_trim_def)

text \<open>
  C10. The request body of a chat submission has the submitted text in its
  \<^verbatim>\<open>message\<close> field and nowhere else, and in \<^verbatim>\<open>conversation_history\<close> the
  transcript of the render the handler belongs to, one object with the role, content
  and timestamp of each message, in order. That is the transcript before the user's
  message was appended: at the moment the request is issued the transcript is already
  one message longer than the history sent. In a configuration whose component state is
  \<open>c\<close>, pressing Enter in the chat box sends exactly this request.
\<close>

theorem handleChat_history_before_append:
  assumes "js_trim (chatInput c) \<noteq> []"
  shows "issued (handleChat c) now = Some (chat_request (chatInput c) (chatMessages c))
       \<and> body (chat_request (chatInput c) (chatMessages c)) =
           Some (chat_body (chatInput c) (chatMessages c))
       \<and> chat_body (chatInput c) (chatMessages c) =
           JObj [(''message'', JStr (chatInput c)),
                 (''conversation_history'',
                    JArr (map (\<lambda>x. JObj [(''role'', JStr (role x)), (''content'', content x),
                                         (''timestamp'', JStr (timestamp x))])
                              (chatMessages c))),
                 (''system_prompt'', JStr ''You are a helpful AI assistant. Provide clear, informative, and engaging responses.'')]
       \<and> js_prop (chat_body (chatInput c) (chatMessages c)) ''message'' =
           Inr (Some (JStr (chatInput c)))
       \<and> js_prop (chat_body (chatInput c) (chatMessages c)) ''conversation_history'' =
           Inr (Some (JArr (map message_json (chatMessages c))))
       \<and> js_prop (chat_body (chatInput c) (chatMessages c)) ''conversation_history'' =
           Inr (Some (JArr (map (\<lambda>x. JObj [(''role'', JStr (role x)), (''content'', content x),
                                              (''timestamp'', JStr (timestamp x))])
                                   (chatMessages c))))
       \<and> chatMessages (sync_state (handleChat c) now c) =
           chatMessages c @
             [\<lparr> role = ''user'', content = JStr (chatInput c), timestamp = now \<rparr>]
       \<and> sent (step (Fire (KeyPressChat ''Enter'' False) now)
                 \<lparr> ui = c, inflight = fl, sent = sn \<rparr>) =
           sn @ [chat_request (chatInput c) (chatMessages c)]"
  using assms
  by (simp add: handleChat_def handleKeyPress_def launch_def issued_def chat_request_def
                post_request_def chat_body_def message_json_fun)

theorem handleChat_history_before_append_witness:
  "js_trim (chatInput followup_draft) \<noteq> []
   \<and> chatMessages followup_draft =
       [\<lparr> role = ''user'', content = JStr ''hi'', timestamp = ''2025-01-01T10:00:00.000Z'' \<rparr>,
        \<lparr> role = ''assistant'', content = JStr ''hello'',
          timestamp = ''2025-01-01T10:00:02.000Z'' \<rparr>]
   \<and> map_option body (issued (handleChat followup_draft) ''2025-01-01T10:00:31.000Z'') =
       Some (Some (JObj
         [(''message'', JStr ''more''),
          (''conversation_history'',
             JArr [JObj [(''role'', JStr ''user''), (''content'', JStr ''hi''),
                         (''timestamp'', JStr ''2025-01-01T10:00:00.000Z'')],
                   JObj [(''role'', JStr ''assistant''), (''content'', JStr ''hello''),
                         (''timestamp'', JStr ''2025-01-01T10:00:02.000Z'')]]),
          (''system_prompt'', JStr ''You are a helpful AI assistant. Provide clear, informative, and engaging responses.'')]))
   \<and> chatMessages (sync_state (handleChat followup_draft) ''2025-01-01T10:00:31.000Z''
        followup_draft) =
       [\<lparr> role = ''user'', content = JStr ''hi'', timestamp = ''2025-01-01T10:00:00.000Z'' \<rparr>,
        \<lparr> role = ''assistant'', content = JStr ''hello'',
          timestamp = ''2025-01-01T10:00:02.000Z'' \<rparr>,
        \<lparr> role = ''user'', content = JStr ''more'',
          timestamp = ''2025-01-01T10:00:31.000Z'' \<rparr>]"
proof -
  have nonblank: "js_trim (chatInput followup_draft) \<noteq> []"
    by (simp add: followup_draft_def js_trim_def is_js_space_def)
  from handleChat_history_before_append
         [OF nonblank, of "''2025-01-01T10:00:31.000Z''" "[]" "[]"] nonblank
  show ?thesis
    by (simp add: followup_draft_def sample_transcript_def)
qed

subsection \<open>Search\<close>

text \<open>
  C4. A search submission enters the Searching state before its request. When the
  request fails, the component ends in the state a response with an empty result list
  leads to: the results are the empty sequence, the busy flag is cleared and no other
  state variable changes. The busy flag is cleared whatever the outcome, and the
  handler neither raises nor issues a second request.
\<close>

theorem handleSearch_failure_as_empty:
  assumes "js_trim (searchQuery c) \<noteq> []"
  shows "isSearching (sync_state (handleSearch c) now s)
       \<and> sync_state (resume (handleSearch c) now (Rejected msg)) now' s' =
           s'\<lparr>searchResults := JArr [], isSearching := False\<rparr>
       \<and> sync_state (resume (handleSearch c) now (Body (JObj [(''results'', JArr [])]))) now' s' =
           s'\<lparr>searchResults := JArr [], isSearching := False\<rparr>
       \<and> \<not> isSearching (sync_state (resume (handleSearch c) now res) now' s')
       \<and> \<not> raises (resume (handleSearch c) now res) now'
       \<and> issued (resume (handleSearch c) now res) now' = None"
  using assms
  by (simp add: handleSearch_def resume_def issued_def search_catch_def search_finally_def
           split: outcome.splits sum.splits)

theorem handleSearch_failure_as_empty_witness:
  "js_trim (searchQuery (query_draft ''cats'')) \<noteq> []
   \<and> sync_state (resume (handleSearch (query_draft ''cats'')) ''2025-01-01T10:00:00.000Z''
        (Rejected ''Failed to fetch'')) ''2025-01-01T10:00:05.000Z''
        (sync_state (handleSearch (query_draft ''cats'')) ''2025-01-01T10:00:00.000Z''
           (query_draft ''cats'')) =
       query_draft ''cats''"
  using handleSearch_failure_as_empty
          [of "query_draft ''cats''" "''2025-01-01T10:00:00.000Z''" "query_draft ''cats''"
              "''Failed to fetch''" "''2025-01-01T10:00:05.000Z''"
              "sync_state (handleSearch (query_draft ''cats'')) ''2025-01-01T10:00:00.000Z''
                 (query_draft ''cats'')"
              "Rejected ''Failed to fetch''"]
  by (simp add: handleSearch_def query_draft_def initial_state_def js_trim_def
                is_js_space_def)

subsection \<open>Search and analyze\<close>

text \<open>
  C5. With a query that is not blank, \<open>handleSearchAndAnalyze\<close> sets the search-busy
  flag and the analysis-busy flag in the same synchronous segment, before it issues its
  one request; both are cleared when that request settles, whatever the outcome.
\<close>

theorem handleSearchAndAnalyze_busy_flags:
  assumes "js_trim (searchQuery c) \<noteq> []"
  shows "trace (handleSearchAndAnalyze c) now =
           [Eff (SetIsSearching True), Eff (SetIsAnalyzing True),
            Issue (analyze_request (searchQuery c))]
       \<and> isSearching (sync_state (handleSearchAndAnalyze c) now s)
       \<and> isAnalyzing (sync_state (handleSearchAndAnalyze c) now s)
       \<and> \<not> isSearching (sync_state (resume (handleSearchAndAnalyze c) now res) now' s')
       \<and> \<not> isAnalyzing (sync_state (resume (handleSearchAndAnalyze c) now res) now' s')
       \<and> issued (resume (handleSearchAndAnalyze c) now res) now' = None"
  using assms
  by (simp add: handleSearchAndAnalyze_def resume_def issued_def analyze_catch_def
                analyze_finally_def
           split: outcome.splits sum.splits)

theorem handleSearchAndAnalyze_busy_flags_witness:
  "js_trim (searchQuery (query_draft ''cats'')) \<noteq> []
   \<and> isSearching (sync_state (handleSearchAndAnalyze (query_draft ''cats''))
        ''2025-01-01T10:00:00.000Z'' (query_draft ''cats''))
   \<and> isAnalyzing (sync_state (handleSearchAndAnalyze (query_draft ''cats''))
        ''2025-01-01T10:00:00.000Z'' (query_draft ''cats''))
   \<and> \<not> isAnalyzing (sync_state (resume (handleSearchAndAnalyze (query_draft ''cats''))
        ''2025-01-01T10:00:00.000Z'' (Rejected ''Failed to fetch''))
        ''2025-01-01T10:00:05.000Z'' (query_draft ''cats''))"
  using handleSearchAndAnalyze_busy_flags
          [of "query_draft ''cats''" "''2025-01-01T10:00:00.000Z''" "query_draft ''cats''"
              "Rejected ''Failed to fetch''" "''2025-01-01T10:00:05.000Z''"
              "query_draft ''cats''"]
  by (simp add: query_draft_def initial_state_def js_trim_def is_js_space_def)



subsection \<open>Agent status\<close>

text \<open>
  C7. \<open>checkAgentStatus\<close> never raises: it issues the status request, and for every
  outcome its continuation ends without an uncaught exception, after setting the agent
  status exactly once. On a parsed body the status is that body, so its \<^verbatim>\<open>status\<close>
  field is the one the endpoint reported; on a failed request it is an object whose
  \<^verbatim>\<open>status\<close> is \<^verbatim>\<open>unhealthy\<close> and whose \<^verbatim>\<open>error\<close> is the message of the
  failure.
\<close>

theorem checkAgentStatus_never_raises:
  "issued checkAgentStatus now = Some (get_request status_url)
   \<and> \<not> raises checkAgentStatus now
   \<and> \<not> raises (resume checkAgentStatus now res) now'
   \<and> issued (resume checkAgentStatus now res) now' = None
   \<and> trace (resume checkAgentStatus now (Body d)) now' = [Eff (SetAgentStatus d)]
   \<and> agentStatus (sync_state (resume checkAgentStatus now (Body d)) now' s) = d
   \<and> trace (resume checkAgentStatus now (Rejected msg)) now' =
       [Eff (ConsoleError ''Error checking agent status:''),
        Eff (SetAgentStatus (JObj [(''status'', JStr ''unhealthy''), (''error'', JStr msg)]))]
   \<and> agentStatus (sync_state (resume checkAgentStatus now (Rejected msg)) now' s) =
       JObj [(''status'', JStr ''unhealthy''), (''error'', JStr msg)]
   \<and> js_prop (agentStatus (sync_state (resume checkAgentStatus now (Rejected msg)) now' s))
        ''status'' = Inr (Some (JStr ''unhealthy''))"
  by (simp add: checkAgentStatus_def issued_def resume_def split: outcome.splits)

text \<open>
  C8. In every session, whatever the user does and however the requests settle,
  exactly one status request is ever issued, the one of the mount: no user event and
  no continuation, that of a failed status request included, issues another. Once that
  request is no longer in flight, nothing that follows changes the agent status.
\<close>

theorem status_polled_once:
  "sent (session now []) = [get_request status_url]
   \<and> filter (\<lambda>r. url r = status_url) (sent (session now acts)) = [get_request status_url]
   \<and> (\<not> status_pending (session now acts) \<longrightarrow>
        agentStatus (ui (exec later (session now acts))) = agentStatus (ui (session now acts)))"
proof -
  have "filter (\<lambda>r. url r = status_url) (sent (mount now)) = [get_request status_url]"
    by (simp add: sent_mount get_request_def)
  then have "filter (\<lambda>r. url r = status_url) (sent (session now acts)) = [get_request status_url]"
    unfolding session_def by (simp add: exec_sent well_formed_mount)
  moreover have "sent (session now []) = [get_request status_url]"
    by (simp add: session_def sent_mount)
  ultimately show ?thesis
    by (simp add: exec_no_status well_formed_session)
qed

theorem status_polled_once_witness:
  "\<not> status_pending (session ''2025-01-01T10:00:00.000Z''
        [Settle 0 (Rejected ''Failed to fetch'') ''2025-01-01T10:00:01.000Z''])
   \<and> agentStatus (ui (exec
        [Fire (ChangeChatInput ''hi'') ''2025-01-01T10:00:02.000Z'',
         Fire ClickSend ''2025-01-01T10:00:03.000Z'',
         Settle 0 (Body (JObj [(''response'', JStr ''hello'')])) ''2025-01-01T10:00:04.000Z'']
        (session ''2025-01-01T10:00:00.000Z''
           [Settle 0 (Rejected ''Failed to fetch'') ''2025-01-01T10:00:01.000Z'']))) =
       JObj [(''status'', JStr ''unhealthy''), (''error'', JStr ''Failed to fetch'')]"
proof -
  have idle: "\<not> status_pending (session ''2025-01-01T10:00:00.000Z''
        [Settle 0 (Rejected ''Failed to fetch'') ''2025-01-01T10:00:01.000Z''])"
    by (simp add: status_pending_def session_def mount_def launch_def checkAgentStatus_def)
  have "agentStatus (ui (session ''2025-01-01T10:00:00.000Z''
          [Settle 0 (Rejected ''Failed to fetch'') ''2025-01-01T10:00:01.000Z''])) =
        JObj [(''status'', JStr ''unhealthy''), (''error'', JStr ''Failed to fetch'')]"
    by (simp add: session_def mount_def launch_def checkAgentStatus_def)
  with idle status_polled_once
         [of "''2025-01-01T10:00:00.000Z''"
             "[Settle 0 (Rejected ''Failed to fetch'') ''2025-01-01T10:00:01.000Z'']"
             "[Fire (ChangeChatInput ''hi'') ''2025-01-01T10:00:02.000Z'',
               Fire ClickSend ''2025-01-01T10:00:03.000Z'',
               Settle 0 (Body (JObj [(''response'', JStr ''hello'')]))
                 ''2025-01-01T10:00:04.000Z'']"]
  show ?thesis by simp
qed

subsection \<open>Transcript\<close>



end
